theory Spec2Isabelle
  imports Main "HOL-Library.AList" "HOL-Library.Sublist"
begin

section \<open>JavaScript values\<close>

text \<open>
  The provider in \<^verbatim>\<open>ui/app/contexts/metametrics.new.js\<close> is dynamically typed: it
  tests its inputs for truthiness (\<^verbatim>\<open>!event\<close>, \<^verbatim>\<open>a || b\<close>, \<^verbatim>\<open>c ? x : y\<close>) and for
  being nullish (\<^verbatim>\<open>??\<close>, default parameters). The values it can meet are modelled
  by \<open>jsval\<close>. Numbers are integers or NaN (the code only looks at whether a number
  is truthy); an object is the list of its own enumerable properties, and nothing
  proved below depends on their order. Functions and arrays are not part of the model.
\<close>

datatype jsval =
    JUndefined
  | JNull
  | JBool bool
  | JNum int
  | JNaN
  | JStr string
  | JObj "(string \<times> jsval) list"

text \<open>ToBoolean: \<^verbatim>\<open>undefined\<close>, \<^verbatim>\<open>null\<close>, \<^verbatim>\<open>false\<close>, \<^verbatim>\<open>0\<close>, \<^verbatim>\<open>NaN\<close> and \<^verbatim>\<open>''\<close> are falsy.\<close>

fun truthy :: "jsval \<Rightarrow> bool" where
  "truthy JUndefined = False"
| "truthy JNull = False"
| "truthy (JBool b) = b"
| "truthy (JNum n) = (n \<noteq> 0)"
| "truthy JNaN = False"
| "truthy (JStr s) = (s \<noteq> [])"
| "truthy (JObj kvs) = True"

text \<open>The test behind \<^verbatim>\<open>??\<close>: only \<^verbatim>\<open>undefined\<close> and \<^verbatim>\<open>null\<close> are nullish.\<close>

fun nullish :: "jsval \<Rightarrow> bool" where
  "nullish JUndefined = True"
| "nullish JNull = True"
| "nullish v = False"

text \<open>\<^verbatim>\<open>a ?? b\<close>\<close>

definition nullish_coalesce :: "jsval \<Rightarrow> jsval \<Rightarrow> jsval" where
  "nullish_coalesce a b = (if nullish a then b else a)"

text \<open>A destructuring default, \<^verbatim>\<open>{ k = d }\<close>: it applies to \<^verbatim>\<open>undefined\<close> only.\<close>

definition with_default :: "jsval \<Rightarrow> jsval \<Rightarrow> jsval" where
  "with_default a d = (if a = JUndefined then d else a)"

fun is_boolean :: "jsval \<Rightarrow> bool" where
  "is_boolean (JBool b) = True"
| "is_boolean v = False"

text \<open>
  Reading a property. The provider reads \<^verbatim>\<open>event\<close>, \<^verbatim>\<open>category\<close>, \<^verbatim>\<open>isOptIn\<close>,
  \<^verbatim>\<open>properties\<close> and \<^verbatim>\<open>excludeMetaMetricsId\<close> from its argument; none of these is
  defined on a primitive, so every value but an object yields \<^verbatim>\<open>undefined\<close>.
\<close>

fun js_get :: "jsval \<Rightarrow> string \<Rightarrow> jsval" where
  "js_get (JObj kvs) k = (case map_of kvs k of Some v \<Rightarrow> v | None \<Rightarrow> JUndefined)"
| "js_get v k = JUndefined"

fun js_keys :: "jsval \<Rightarrow> string list" where
  "js_keys (JObj kvs) = map fst kvs"
| "js_keys v = []"

text \<open>\<^verbatim>\<open>String.prototype.startsWith\<close>\<close>

definition startsWith :: "string \<Rightarrow> string \<Rightarrow> bool" where
  "startsWith s p = prefix p s"

subsection \<open>lodash \<^verbatim>\<open>omit\<close>\<close>

text \<open>
  \<^verbatim>\<open>omit(object, paths)\<close> copies the enumerable properties of \<^verbatim>\<open>object\<close> into a fresh
  object and unsets the listed keys. For \<^verbatim>\<open>null\<close> and \<^verbatim>\<open>undefined\<close> the result is
  empty; a number or boolean has no enumerable property; a string has one property
  per character, keyed by its index.
\<close>

fun index_key :: "nat \<Rightarrow> string" where
  "index_key n =
     (if n < 10 then [''0123456789'' ! n]
      else index_key (n div 10) @ [''0123456789'' ! (n mod 10)])"

declare index_key.simps [simp del]

fun own_entries :: "jsval \<Rightarrow> (string \<times> jsval) list" where
  "own_entries (JObj kvs) = kvs"
| "own_entries (JStr s) = map (\<lambda>(i, c). (index_key i, JStr [c])) (enumerate 0 s)"
| "own_entries v = []"

definition omit :: "jsval \<Rightarrow> string list \<Rightarrow> jsval" where
  "omit object paths = JObj (filter (\<lambda>kv. fst kv \<notin> set paths) (own_entries object))"

section \<open>What the provider reads\<close>

text \<open>
  The redux state read through \<^verbatim>\<open>useSelector\<close>. \<^verbatim>\<open>network\<close> stands for
  \<^verbatim>\<open>getCurrentNetworkId(state)\<close>.
\<close>

record metamask_state =
  metaMetricsId :: jsval
  participateInMetaMetrics :: jsval
  metaMetricsSendCount :: int
  network :: jsval

text \<open>\<^verbatim>\<open>useLocation()\<close>\<close>

record location =
  pathname :: string
  hash :: string

text \<open>The object \<^verbatim>\<open>matchPath\<close> of react-router returns on a match.\<close>

record route_match =
  path :: string
  url :: string
  isExact :: bool
  params :: "(string \<times> jsval) list"

text \<open>
  What the file imports and does not define is a parameter of the model:
  the route table \<^verbatim>\<open>PATH_NAME_MAP\<close> (route pattern to page name),
  react-router's \<^verbatim>\<open>matchPath\<close> (called with \<^verbatim>\<open>exact: true, strict: true\<close>; \<open>None\<close> is
  its \<^verbatim>\<open>null\<close>), the predicate \<^verbatim>\<open>sendCountIsTrackable\<close>, the constant
  \<^verbatim>\<open>METAMETRICS_ANONYMOUS_ID\<close>, and the values of \<^verbatim>\<open>global.platform.getVersion()\<close>,
  \<^verbatim>\<open>process.env.METAMASK_ENVIRONMENT\<close>, \<^verbatim>\<open>getPlatform()\<close> and \<^verbatim>\<open>getEnvironmentType()\<close>.
\<close>

record deps =
  PATH_NAME_MAP :: "(string \<times> string) list"
  matchPath :: "string \<Rightarrow> string list \<Rightarrow> route_match option"
  sendCountIsTrackable :: "int \<Rightarrow> bool"
  METAMETRICS_ANONYMOUS_ID :: string
  getVersion :: jsval
  METAMASK_ENVIRONMENT :: jsval
  getPlatform :: jsval
  getEnvironmentType :: jsval

text \<open>\<^verbatim>\<open>const PATHS_TO_CHECK = Object.keys(PATH_NAME_MAP)\<close>\<close>

definition PATHS_TO_CHECK :: "deps \<Rightarrow> string list" where
  "PATHS_TO_CHECK d = map fst (PATH_NAME_MAP d)"

section \<open>What the provider does\<close>

text \<open>
  The calls the provider makes to the outside, in the order it makes them:
  \<^verbatim>\<open>segment.page(payload)\<close>, \<^verbatim>\<open>segment.track(payload)\<close> and Sentry's
  \<^verbatim>\<open>captureMessage(text)\<close>.
\<close>

datatype effect =
    SegmentPage jsval
  | SegmentTrack jsval
  | CaptureMessage string

text \<open>
  The two \<^verbatim>\<open>throw new Error(...)\<close> of \<^verbatim>\<open>trackEvent\<close>, and the TypeError the runtime
  raises when \<^verbatim>\<open>null\<close> is destructured or when \<^verbatim>\<open>event.match\<close> is not a function.
\<close>

datatype js_error =
    MissingEventError
  | MissingCategoryError
  | TypeError

subsection \<open>The page effect\<close>

text \<open>
  The body of the \<^verbatim>\<open>useEffect\<close> that runs whenever the location changes. The result
  is the list of calls it made.
\<close>

definition page_useEffect :: "deps \<Rightarrow> metamask_state \<Rightarrow> location \<Rightarrow> effect list" where
  "page_useEffect d st loc =
     (if startsWith (pathname loc) ''/initialize'' \<or> truthy (participateInMetaMetrics st) then
        let idTrait = (if truthy (metaMetricsId st) then ''userId'' else ''anonymousId'');
            idValue = nullish_coalesce (metaMetricsId st) (JStr (METAMETRICS_ANONYMOUS_ID d))
        in (case matchPath d (pathname loc) (PATHS_TO_CHECK d) of
              Some m \<Rightarrow>
                let name = (case map_of (PATH_NAME_MAP d) (path m) of
                              Some n \<Rightarrow> JStr n | None \<Rightarrow> JUndefined)
                in [SegmentPage (JObj
                      [(idTrait, idValue),
                       (''name'', name),
                       (''properties'', JObj
                          [(''url'', JStr (path m)),
                           (''hash'', JStr (hash loc)),
                           (''params'', omit (JObj (params m)) [''account'', ''address''])])])]
            | None \<Rightarrow>
                if pathname loc \<noteq> ''/confirm-transaction'' then
                  [CaptureMessage (pathname loc @
                     '' would have issued a page track event to segment, but no route match was found'')]
                else [])
      else [])"

subsection \<open>trackEvent\<close>

text \<open>\<^verbatim>\<open>Boolean(event.match(/^send|^confirm/u))\<close> on a string.\<close>

definition isSendFlow :: "string \<Rightarrow> bool" where
  "isSendFlow e = (startsWith e ''send'' \<or> startsWith e ''confirm'')"

text \<open>
  The result pairs the calls made before the function returned or threw with the
  way it ended: \<open>Inr ()\<close> for \<^verbatim>\<open>return undefined\<close>, \<open>Inl e\<close> for a throw.
  The spread \<^verbatim>\<open>{...o, category, exclude_meta_metrics_id: x}\<close> copies the properties of
  \<^verbatim>\<open>o\<close> and then assigns the two keys, replacing a copied one in place.
\<close>

definition trackEvent :: "deps \<Rightarrow> metamask_state \<Rightarrow> jsval \<Rightarrow> effect list \<times> (js_error + unit)" where
  "trackEvent d st config0 =
     (let config = with_default config0 (JObj []) in
      if config = JNull then ([], Inl TypeError)
      else
        let event = js_get config ''event'';
            category = js_get config ''category'';
            isOptIn = with_default (js_get config ''isOptIn'') (JBool False);
            properties = with_default (js_get config ''properties'') (JObj [])
        in
        if \<not> truthy event then ([], Inl MissingEventError)
        else if \<not> truthy category then ([], Inl MissingCategoryError)
        else
          let excludeMetaMetricsId0 =
                nullish_coalesce (js_get config ''excludeMetaMetricsId'') (JBool False)
          in (case event of
                JStr e \<Rightarrow>
                  let excludeMetaMetricsId =
                        (if isSendFlow e \<and> \<not> sendCountIsTrackable d (metaMetricsSendCount st + 1)
                         then JBool True else excludeMetaMetricsId0);
                      idTrait = (if truthy excludeMetaMetricsId then ''anonymousId'' else ''userId'');
                      idValue = (if truthy excludeMetaMetricsId
                                 then JStr (METAMETRICS_ANONYMOUS_ID d) else metaMetricsId st)
                  in
                  if truthy (participateInMetaMetrics st) \<or> truthy isOptIn then
                    ([SegmentTrack (JObj
                        [(idTrait, idValue),
                         (''event'', event),
                         (''properties'', JObj
                            (AList.update ''exclude_meta_metrics_id'' excludeMetaMetricsId
                              (AList.update ''category'' category
                                (own_entries (omit properties [''revenue'', ''currency'', ''value'']))))),
                         (''context'', JObj
                            [(''version'', getVersion d),
                             (''environment'', METAMASK_ENVIRONMENT d),
                             (''platform'', getPlatform d),
                             (''network'', network st),
                             (''environment_type'', getEnvironmentType d)])])],
                     Inr ())
                  else ([], Inr ())
              | _ \<Rightarrow> ([], Inl TypeError)))"

section \<open>A concrete instance\<close>

text \<open>
  A small route table and a matcher for it, used to run the definitions. The table has
  one pattern without parameters and one with the parameter \<^verbatim>\<open>address\<close>; with
  \<^verbatim>\<open>exact\<close> and \<^verbatim>\<open>strict\<close> set, \<^verbatim>\<open>/settings\<close> matches only itself and
  \<^verbatim>\<open>/asset/:address\<close> matches \<^verbatim>\<open>/asset/\<close> followed by one non-empty segment.
\<close>

definition sample_matchPath :: "string \<Rightarrow> string list \<Rightarrow> route_match option" where
  "sample_matchPath p ps =
     (if p = ''/settings'' \<and> ''/settings'' \<in> set ps then
        Some \<lparr>path = ''/settings'', url = ''/settings'', isExact = True, params = []\<rparr>
      else if startsWith p ''/asset/'' \<and> drop 7 p \<noteq> [] \<and> CHR ''/'' \<notin> set (drop 7 p)
              \<and> ''/asset/:address'' \<in> set ps then
        Some \<lparr>path = ''/asset/:address'', url = p, isExact = True,
              params = [(''address'', JStr (drop 7 p))]\<rparr>
      else None)"

definition sample_deps :: deps where
  "sample_deps =
     \<lparr>PATH_NAME_MAP = [(''/settings'', ''Settings Page''), (''/asset/:address'', ''Asset Page'')],
      matchPath = sample_matchPath,
      sendCountIsTrackable = (\<lambda>n. n < 3),
      METAMETRICS_ANONYMOUS_ID = ''0x0000000000000000'',
      getVersion = JStr ''8.0.0'',
      METAMASK_ENVIRONMENT = JStr ''production'',
      getPlatform = JStr ''Chrome'',
      getEnvironmentType = JStr ''popup''\<rparr>"

definition sample_state :: "jsval \<Rightarrow> jsval \<Rightarrow> int \<Rightarrow> metamask_state" where
  "sample_state uid consent n =
     \<lparr>metaMetricsId = uid, participateInMetaMetrics = consent,
      metaMetricsSendCount = n, network = JStr ''1''\<rparr>"

section \<open>Auxiliary facts\<close>

lemma js_get_with_default_config:
  "js_get (with_default config (JObj [])) k = js_get config k"
  by (cases config) (simp_all add: with_default_def)

lemma with_default_config_null:
  "(with_default config (JObj []) = JNull) = (config = JNull)"
  by (cases config) (simp_all add: with_default_def)

lemma truthy_with_default_False:
  "truthy (with_default v (JBool False)) = truthy v"
  by (cases v) (simp_all add: with_default_def)

text \<open>
  Whenever \<^verbatim>\<open>trackEvent\<close> calls \<^verbatim>\<open>segment.track\<close>, the event is a non-empty string, the
  category is truthy, one of the two consent tests passed, the call is the only one made,
  and the payload is the object literal of the source.
\<close>

lemma trackEvent_emitted:
  assumes "SegmentTrack p \<in> set (fst (trackEvent d st config))"
  shows "\<exists>e x. js_get config ''event'' = JStr e \<and> e \<noteq> []
           \<and> truthy (js_get config ''category'')
           \<and> (truthy (participateInMetaMetrics st) \<or> truthy (js_get config ''isOptIn''))
           \<and> x = (if isSendFlow e \<and> \<not> sendCountIsTrackable d (metaMetricsSendCount st + 1)
                  then JBool True
                  else nullish_coalesce (js_get config ''excludeMetaMetricsId'') (JBool False))
           \<and> p = JObj
                 [(if truthy x then ''anonymousId'' else ''userId'',
                   if truthy x then JStr (METAMETRICS_ANONYMOUS_ID d) else metaMetricsId st),
                  (''event'', JStr e),
                  (''properties'', JObj
                     (AList.update ''exclude_meta_metrics_id'' x
                       (AList.update ''category'' (js_get config ''category'')
                         (own_entries (omit (with_default (js_get config ''properties'') (JObj []))
                            [''revenue'', ''currency'', ''value'']))))),
                  (''context'', JObj
                     [(''version'', getVersion d),
                      (''environment'', METAMASK_ENVIRONMENT d),
                      (''platform'', getPlatform d),
                      (''network'', network st),
                      (''environment_type'', getEnvironmentType d)])]
           \<and> trackEvent d st config = ([SegmentTrack p], Inr ())"
proof -
  note defs = trackEvent_def Let_def js_get_with_default_config with_default_config_null
    truthy_with_default_False
  have nn: "config \<noteq> JNull"
    using assms by (auto simp add: defs)
  have ev: "truthy (js_get config ''event'')"
    using assms nn by (auto simp add: defs split: if_splits)
  have cat: "truthy (js_get config ''category'')"
    using assms nn ev by (auto simp add: defs split: if_splits)
  obtain e where e: "js_get config ''event'' = JStr e"
    using assms nn ev cat by (cases "js_get config ''event''") (auto simp add: defs)
  have ne: "e \<noteq> []"
    using ev e by simp
  have opt: "truthy (participateInMetaMetrics st) \<or> truthy (js_get config ''isOptIn'')"
    using assms nn ev cat e by (auto simp add: defs split: if_splits)
  show ?thesis
    using assms nn cat e ne opt by (auto simp add: defs)
qed

lemma omit_key_notin:
  "k \<in> set ks \<Longrightarrow> k \<notin> fst ` set (own_entries (omit v ks))"
  by (simp add: omit_def image_iff)

lemma update_key_notin:
  "k \<notin> fst ` set al \<Longrightarrow> k \<noteq> k' \<Longrightarrow> k \<notin> fst ` set (AList.update k' v al)"
  by (simp add: dom_update)

lemma track_properties_key_notin:
  assumes "k = ''revenue'' \<or> k = ''currency'' \<or> k = ''value''"
  shows "k \<notin> fst ` set (AList.update ''exclude_meta_metrics_id'' x
                 (AList.update ''category'' c
                   (own_entries (omit v [''revenue'', ''currency'', ''value'']))))"
proof -
  have "k \<in> set [''revenue'', ''currency'', ''value'']"
    using assms by auto
  then have "k \<notin> fst ` set (own_entries (omit v [''revenue'', ''currency'', ''value'']))"
    by (rule omit_key_notin)
  moreover have "k \<noteq> ''category''" and "k \<noteq> ''exclude_meta_metrics_id''"
    using assms by auto
  ultimately show ?thesis
    by (intro update_key_notin)
qed

lemma is_boolean_coalesce:
  "is_boolean v \<or> nullish v \<Longrightarrow> is_boolean (nullish_coalesce v (JBool False))"
  by (cases v) (simp_all add: nullish_coalesce_def)

text \<open>The same for the page effect and \<^verbatim>\<open>segment.page\<close>.\<close>

lemma page_useEffect_emitted:
  assumes "SegmentPage p \<in> set (page_useEffect d st loc)"
  shows "\<exists>m. matchPath d (pathname loc) (PATHS_TO_CHECK d) = Some m
           \<and> (startsWith (pathname loc) ''/initialize'' \<or> truthy (participateInMetaMetrics st))
           \<and> p = JObj
                 [(if truthy (metaMetricsId st) then ''userId'' else ''anonymousId'',
                   nullish_coalesce (metaMetricsId st) (JStr (METAMETRICS_ANONYMOUS_ID d))),
                  (''name'', case map_of (PATH_NAME_MAP d) (path m) of
                               Some n \<Rightarrow> JStr n | None \<Rightarrow> JUndefined),
                  (''properties'', JObj
                     [(''url'', JStr (path m)),
                      (''hash'', JStr (hash loc)),
                      (''params'', omit (JObj (params m)) [''account'', ''address''])])]
           \<and> page_useEffect d st loc = [SegmentPage p]"
proof (cases "matchPath d (pathname loc) (PATHS_TO_CHECK d)")
  case None
  then show ?thesis
    using assms by (simp add: page_useEffect_def Let_def split: if_splits)
next
  case (Some m)
  then show ?thesis
    using assms by (simp add: page_useEffect_def Let_def split: if_splits)
qed

lemma omit_map_values:
  "omit (JObj (map (\<lambda>(k, v). (k, if k \<in> set ks then f k v else v)) kvs)) ks = omit (JObj kvs) ks"
  by (induction kvs) (auto simp add: omit_def)

text \<open>The definitions unfolded to run the model on the concrete instance.\<close>

lemmas sample_defs =
  trackEvent_def sample_deps_def sample_state_def with_default_def nullish_coalesce_def
  isSendFlow_def startsWith_def omit_def Let_def

lemmas page_defs =
  page_useEffect_def PATHS_TO_CHECK_def sample_deps_def sample_state_def sample_matchPath_def
  nullish_coalesce_def startsWith_def omit_def Let_def

section \<open>Properties of trackEvent\<close>

text \<open>
  C1. When the consent flag \<^verbatim>\<open>participateInMetaMetrics\<close> is false and the config's
  \<^verbatim>\<open>isOptIn\<close> is false or absent, \<^verbatim>\<open>trackEvent\<close> makes no call to the SDK, whatever
  the rest of the config, the state and the imported values are. The statement covers
  every falsy value of the two flags, \<^verbatim>\<open>false\<close> and a missing \<^verbatim>\<open>isOptIn\<close> among them.
\<close>

theorem trackEvent_no_consent_no_emission:
  assumes "\<not> truthy (participateInMetaMetrics st)"
    and "\<not> truthy (js_get config ''isOptIn'')"
  shows "fst (trackEvent d st config) = []"
proof -
  have "\<not> truthy (with_default (js_get config ''isOptIn'') (JBool False))"
    using assms(2) by (simp add: with_default_def)
  moreover have "js_get (with_default config (JObj [])) ''isOptIn'' = js_get config ''isOptIn''"
    by (cases config) (simp_all add: with_default_def)
  ultimately show ?thesis
    using assms(1)
    by (simp add: trackEvent_def Let_def split: jsval.split)
qed

theorem trackEvent_no_consent_no_emission_witness:
  "\<not> truthy (participateInMetaMetrics (sample_state (JStr ''abc'') (JBool False) 0))
   \<and> \<not> truthy (js_get (JObj [(''event'', JStr ''Unlocked MetaMask''), (''category'', JStr ''Navigation'')]) ''isOptIn'')
   \<and> trackEvent sample_deps (sample_state (JStr ''abc'') (JBool False) 0)
        (JObj [(''event'', JStr ''Unlocked MetaMask''), (''category'', JStr ''Navigation'')])
      = ([], Inr ())"
  using trackEvent_no_consent_no_emission
    [of "sample_state (JStr ''abc'') (JBool False) 0"
        "JObj [(''event'', JStr ''Unlocked MetaMask''), (''category'', JStr ''Navigation'')]"
        sample_deps]
  by (simp add: trackEvent_def sample_state_def with_default_def nullish_coalesce_def Let_def)

text \<open>
  C2. A config whose \<^verbatim>\<open>event\<close> or \<^verbatim>\<open>category\<close> is missing or falsy makes \<^verbatim>\<open>trackEvent\<close>
  throw, and no call has been made when it throws. The error is the one for the missing
  event when \<^verbatim>\<open>event\<close> is falsy, otherwise the one for the missing category; a \<^verbatim>\<open>null\<close>
  config (which has neither field) fails earlier, with the TypeError of destructuring it.
\<close>

theorem trackEvent_missing_event_or_category:
  assumes "\<not> truthy (js_get config ''event'') \<or> \<not> truthy (js_get config ''category'')"
  shows "trackEvent d st config =
           ([], Inl (if config = JNull then TypeError
                     else if \<not> truthy (js_get config ''event'') then MissingEventError
                     else MissingCategoryError))"
  using assms
  by (auto simp add: trackEvent_def Let_def js_get_with_default_config with_default_config_null)

theorem trackEvent_missing_event_or_category_witness:
  "\<not> truthy (js_get (JObj [(''category'', JStr ''Navigation'')]) ''event'')
   \<and> trackEvent sample_deps (sample_state (JStr ''abc'') (JBool True) 0)
        (JObj [(''category'', JStr ''Navigation'')]) = ([], Inl MissingEventError)"
  using trackEvent_missing_event_or_category
    [of "JObj [(''category'', JStr ''Navigation'')]" sample_deps
        "sample_state (JStr ''abc'') (JBool True) 0"]
  by simp

text \<open>
  C4. When an event whose name starts with \<^verbatim>\<open>send\<close> or \<^verbatim>\<open>confirm\<close> is emitted and
  \<^verbatim>\<open>sendCountIsTrackable\<close> rejects the send count plus one, the payload carries the
  anonymous identifier under \<^verbatim>\<open>anonymousId\<close> and has no \<^verbatim>\<open>userId\<close> key, whatever the
  stored user id and the caller's \<^verbatim>\<open>excludeMetaMetricsId\<close> are.
\<close>

theorem trackEvent_send_flow_anonymized:
  assumes "SegmentTrack p \<in> set (fst (trackEvent d st config))"
    and "js_get config ''event'' = JStr e"
    and "isSendFlow e"
    and "\<not> sendCountIsTrackable d (metaMetricsSendCount st + 1)"
  shows "fst (trackEvent d st config) = [SegmentTrack p]
         \<and> js_get p ''anonymousId'' = JStr (METAMETRICS_ANONYMOUS_ID d)
         \<and> ''userId'' \<notin> set (js_keys p)"
  using trackEvent_emitted [OF assms(1)] assms(2-4) by auto

theorem trackEvent_send_flow_anonymized_witness:
  "let S = sample_state (JStr ''abc'') (JBool True) 5;
       C = JObj [(''event'', JStr ''send tokens''), (''category'', JStr ''Transactions'')];
       P = JObj [(''anonymousId'', JStr ''0x0000000000000000''),
                 (''event'', JStr ''send tokens''),
                 (''properties'', JObj [(''category'', JStr ''Transactions''),
                                       (''exclude_meta_metrics_id'', JBool True)]),
                 (''context'', JObj [(''version'', JStr ''8.0.0''),
                                    (''environment'', JStr ''production''),
                                    (''platform'', JStr ''Chrome''),
                                    (''network'', JStr ''1''),
                                    (''environment_type'', JStr ''popup'')])]
   in SegmentTrack P \<in> set (fst (trackEvent sample_deps S C))
      \<and> js_get C ''event'' = JStr ''send tokens''
      \<and> isSendFlow ''send tokens''
      \<and> \<not> sendCountIsTrackable sample_deps (metaMetricsSendCount S + 1)
      \<and> fst (trackEvent sample_deps S C) = [SegmentTrack P]
      \<and> js_get P ''anonymousId'' = JStr (METAMETRICS_ANONYMOUS_ID sample_deps)
      \<and> ''userId'' \<notin> set (js_keys P)"
  using trackEvent_send_flow_anonymized
    [of "JObj [(''anonymousId'', JStr ''0x0000000000000000''),
                 (''event'', JStr ''send tokens''),
                 (''properties'', JObj [(''category'', JStr ''Transactions''),
                                       (''exclude_meta_metrics_id'', JBool True)]),
                 (''context'', JObj [(''version'', JStr ''8.0.0''),
                                    (''environment'', JStr ''production''),
                                    (''platform'', JStr ''Chrome''),
                                    (''network'', JStr ''1''),
                                    (''environment_type'', JStr ''popup'')])]"
        sample_deps "sample_state (JStr ''abc'') (JBool True) 5"
        "JObj [(''event'', JStr ''send tokens''), (''category'', JStr ''Transactions'')]"
        "''send tokens''"]
  by (simp add: sample_defs)

text \<open>
  C5. The \<^verbatim>\<open>properties\<close> object of an emitted payload has none of the keys
  \<^verbatim>\<open>revenue\<close>, \<^verbatim>\<open>currency\<close> and \<^verbatim>\<open>value\<close>, whatever \<^verbatim>\<open>config.properties\<close> holds.
\<close>

theorem trackEvent_strips_revenue_currency_value:
  assumes "SegmentTrack p \<in> set (fst (trackEvent d st config))"
  shows "''revenue'' \<notin> set (js_keys (js_get p ''properties''))
         \<and> ''currency'' \<notin> set (js_keys (js_get p ''properties''))
         \<and> ''value'' \<notin> set (js_keys (js_get p ''properties''))"
proof -
  obtain x where p: "js_get p ''properties'' = JObj
      (AList.update ''exclude_meta_metrics_id'' x
        (AList.update ''category'' (js_get config ''category'')
          (own_entries (omit (with_default (js_get config ''properties'') (JObj []))
             [''revenue'', ''currency'', ''value'']))))"
    using trackEvent_emitted [OF assms] by auto
  have "k = ''revenue'' \<or> k = ''currency'' \<or> k = ''value''
          \<Longrightarrow> k \<notin> set (js_keys (js_get p ''properties''))" for k
    using track_properties_key_notin [of k] by (simp add: p)
  then show ?thesis
    by blast
qed

theorem trackEvent_strips_revenue_currency_value_witness:
  "let S = sample_state (JStr ''abc'') (JBool True) 0;
       C = JObj [(''event'', JStr ''Swap Completed''), (''category'', JStr ''Swaps''),
                 (''properties'', JObj [(''revenue'', JNum 5), (''token'', JStr ''DAI''),
                                       (''currency'', JStr ''usd''), (''value'', JNum 7)])];
       P = JObj [(''userId'', JStr ''abc''),
                 (''event'', JStr ''Swap Completed''),
                 (''properties'', JObj [(''token'', JStr ''DAI''),
                                       (''category'', JStr ''Swaps''),
                                       (''exclude_meta_metrics_id'', JBool False)]),
                 (''context'', JObj [(''version'', JStr ''8.0.0''),
                                    (''environment'', JStr ''production''),
                                    (''platform'', JStr ''Chrome''),
                                    (''network'', JStr ''1''),
                                    (''environment_type'', JStr ''popup'')])]
   in SegmentTrack P \<in> set (fst (trackEvent sample_deps S C))
      \<and> ''revenue'' \<notin> set (js_keys (js_get P ''properties''))
      \<and> ''currency'' \<notin> set (js_keys (js_get P ''properties''))
      \<and> ''value'' \<notin> set (js_keys (js_get P ''properties''))"
  using trackEvent_strips_revenue_currency_value
    [of "JObj [(''userId'', JStr ''abc''),
                 (''event'', JStr ''Swap Completed''),
                 (''properties'', JObj [(''token'', JStr ''DAI''),
                                       (''category'', JStr ''Swaps''),
                                       (''exclude_meta_metrics_id'', JBool False)]),
                 (''context'', JObj [(''version'', JStr ''8.0.0''),
                                    (''environment'', JStr ''production''),
                                    (''platform'', JStr ''Chrome''),
                                    (''network'', JStr ''1''),
                                    (''environment_type'', JStr ''popup'')])]"
        sample_deps "sample_state (JStr ''abc'') (JBool True) 0"
        "JObj [(''event'', JStr ''Swap Completed''), (''category'', JStr ''Swaps''),
                 (''properties'', JObj [(''revenue'', JNum 5), (''token'', JStr ''DAI''),
                                       (''currency'', JStr ''usd''), (''value'', JNum 7)])]"]
  by (simp add: sample_defs)

text \<open>
  C9. When an event is emitted, the caller's \<^verbatim>\<open>excludeMetaMetricsId\<close> is absent or falsy
  and the send-flow rule does not fire, the payload has the key \<^verbatim>\<open>userId\<close> holding the
  stored \<^verbatim>\<open>metaMetricsId\<close> as it is, \<^verbatim>\<open>null\<close> or \<^verbatim>\<open>undefined\<close> included, and no
  \<^verbatim>\<open>anonymousId\<close> key.
\<close>

theorem trackEvent_userId_when_not_anonymized:
  assumes "SegmentTrack p \<in> set (fst (trackEvent d st config))"
    and "\<not> truthy (js_get config ''excludeMetaMetricsId'')"
    and "\<forall>e. js_get config ''event'' = JStr e \<longrightarrow>
           \<not> (isSendFlow e \<and> \<not> sendCountIsTrackable d (metaMetricsSendCount st + 1))"
  shows "fst (trackEvent d st config) = [SegmentTrack p]
         \<and> (''userId'', metaMetricsId st) \<in> set (own_entries p)
         \<and> ''anonymousId'' \<notin> set (js_keys p)"
proof -
  have "\<not> truthy (nullish_coalesce (js_get config ''excludeMetaMetricsId'') (JBool False))"
    using assms(2) by (cases "js_get config ''excludeMetaMetricsId''") (simp_all add: nullish_coalesce_def)
  then show ?thesis
    using trackEvent_emitted [OF assms(1)] assms(3) by auto
qed

theorem trackEvent_userId_when_not_anonymized_witness:
  "let S = sample_state JNull JNull 0;
       C = JObj [(''event'', JStr ''Metrics Opt In''), (''category'', JStr ''Onboarding''),
                 (''isOptIn'', JBool True)];
       P = JObj [(''userId'', JNull),
                 (''event'', JStr ''Metrics Opt In''),
                 (''properties'', JObj [(''category'', JStr ''Onboarding''),
                                       (''exclude_meta_metrics_id'', JBool False)]),
                 (''context'', JObj [(''version'', JStr ''8.0.0''),
                                    (''environment'', JStr ''production''),
                                    (''platform'', JStr ''Chrome''),
                                    (''network'', JStr ''1''),
                                    (''environment_type'', JStr ''popup'')])]
   in SegmentTrack P \<in> set (fst (trackEvent sample_deps S C))
      \<and> \<not> truthy (js_get C ''excludeMetaMetricsId'')
      \<and> js_get C ''event'' = JStr ''Metrics Opt In''
      \<and> \<not> isSendFlow ''Metrics Opt In''
      \<and> fst (trackEvent sample_deps S C) = [SegmentTrack P]
      \<and> (''userId'', metaMetricsId S) \<in> set (own_entries P)
      \<and> metaMetricsId S = JNull
      \<and> ''anonymousId'' \<notin> set (js_keys P)"
  using trackEvent_userId_when_not_anonymized
    [of "JObj [(''userId'', JNull),
                 (''event'', JStr ''Metrics Opt In''),
                 (''properties'', JObj [(''category'', JStr ''Onboarding''),
                                       (''exclude_meta_metrics_id'', JBool False)]),
                 (''context'', JObj [(''version'', JStr ''8.0.0''),
                                    (''environment'', JStr ''production''),
                                    (''platform'', JStr ''Chrome''),
                                    (''network'', JStr ''1''),
                                    (''environment_type'', JStr ''popup'')])]"
        sample_deps "sample_state JNull JNull 0"
        "JObj [(''event'', JStr ''Metrics Opt In''), (''category'', JStr ''Onboarding''),
                 (''isOptIn'', JBool True)]"]
  by (simp add: sample_defs)

text \<open>
  C10, as stated: the emitted \<^verbatim>\<open>properties\<close> always hold a boolean under
  \<^verbatim>\<open>exclude_meta_metrics_id\<close>. The code passes the caller's \<^verbatim>\<open>excludeMetaMetricsId\<close>
  through \<^verbatim>\<open>?? false\<close> without converting it, so a caller's string arrives as a string.
\<close>

theorem trackEvent_exclude_flag_not_boolean:
  "trackEvent sample_deps (sample_state (JStr ''abc'') (JBool True) 0)
     (JObj [(''event'', JStr ''Unlocked MetaMask''), (''category'', JStr ''Navigation''),
            (''excludeMetaMetricsId'', JStr ''yes'')])
   = ([SegmentTrack (JObj
         [(''anonymousId'', JStr ''0x0000000000000000''),
          (''event'', JStr ''Unlocked MetaMask''),
          (''properties'', JObj [(''category'', JStr ''Navigation''),
                                (''exclude_meta_metrics_id'', JStr ''yes'')]),
          (''context'', JObj [(''version'', JStr ''8.0.0''),
                             (''environment'', JStr ''production''),
                             (''platform'', JStr ''Chrome''),
                             (''network'', JStr ''1''),
                             (''environment_type'', JStr ''popup'')])])], Inr ())
   \<and> \<not> is_boolean (JStr ''yes'')"
  by (simp add: sample_defs)

text \<open>
  C10, amended. The \<^verbatim>\<open>properties\<close> object of an emitted payload holds \<^verbatim>\<open>category\<close>, equal
  to the config's category, and \<^verbatim>\<open>exclude_meta_metrics_id\<close>, whose value is truthy exactly
  when the event went out under \<^verbatim>\<open>anonymousId\<close>, and is a boolean whenever the caller's
  \<^verbatim>\<open>excludeMetaMetricsId\<close> is a boolean, \<^verbatim>\<open>null\<close> or absent. Both hold whatever
  \<^verbatim>\<open>config.properties\<close> contains, so keys of the same names in it are overridden.
\<close>

theorem trackEvent_category_and_exclude_flag:
  assumes "SegmentTrack p \<in> set (fst (trackEvent d st config))"
  shows "map_of (own_entries (js_get p ''properties'')) ''category'' = Some (js_get config ''category'')
         \<and> (\<exists>x. map_of (own_entries (js_get p ''properties'')) ''exclude_meta_metrics_id'' = Some x
                \<and> (truthy x \<longleftrightarrow> ''anonymousId'' \<in> set (js_keys p))
                \<and> (is_boolean (js_get config ''excludeMetaMetricsId'')
                      \<or> nullish (js_get config ''excludeMetaMetricsId'') \<longrightarrow> is_boolean x))"
proof -
  obtain e x where x: "x = (if isSendFlow e \<and> \<not> sendCountIsTrackable d (metaMetricsSendCount st + 1)
                  then JBool True
                  else nullish_coalesce (js_get config ''excludeMetaMetricsId'') (JBool False))"
    and p: "p = JObj
                 [(if truthy x then ''anonymousId'' else ''userId'',
                   if truthy x then JStr (METAMETRICS_ANONYMOUS_ID d) else metaMetricsId st),
                  (''event'', JStr e),
                  (''properties'', JObj
                     (AList.update ''exclude_meta_metrics_id'' x
                       (AList.update ''category'' (js_get config ''category'')
                         (own_entries (omit (with_default (js_get config ''properties'') (JObj []))
                            [''revenue'', ''currency'', ''value'']))))),
                  (''context'', JObj
                     [(''version'', getVersion d),
                      (''environment'', METAMASK_ENVIRONMENT d),
                      (''platform'', getPlatform d),
                      (''network'', network st),
                      (''environment_type'', getEnvironmentType d)])]"
    using trackEvent_emitted [OF assms] by blast
  have b: "is_boolean (js_get config ''excludeMetaMetricsId'')
             \<or> nullish (js_get config ''excludeMetaMetricsId'') \<longrightarrow> is_boolean x"
    using is_boolean_coalesce [of "js_get config ''excludeMetaMetricsId''"] by (simp add: x)
  have c: "map_of (own_entries (js_get p ''properties'')) ''category'' = Some (js_get config ''category'')"
    by (simp add: p update_conv')
  have f: "map_of (own_entries (js_get p ''properties'')) ''exclude_meta_metrics_id'' = Some x"
    by (simp add: p update_conv')
  have t: "truthy x \<longleftrightarrow> ''anonymousId'' \<in> set (js_keys p)"
    by (simp add: p)
  show ?thesis
    using b c f t by blast
qed

theorem trackEvent_category_and_exclude_flag_witness:
  "let S = sample_state (JStr ''abc'') (JBool True) 0;
       C = JObj [(''event'', JStr ''Unlocked MetaMask''), (''category'', JStr ''Navigation''),
                 (''properties'', JObj [(''exclude_meta_metrics_id'', JStr ''mine''),
                                       (''category'', JStr ''Other''), (''n'', JNum 1)])];
       P = JObj [(''userId'', JStr ''abc''),
                 (''event'', JStr ''Unlocked MetaMask''),
                 (''properties'', JObj [(''exclude_meta_metrics_id'', JBool False),
                                       (''category'', JStr ''Navigation''), (''n'', JNum 1)]),
                 (''context'', JObj [(''version'', JStr ''8.0.0''),
                                    (''environment'', JStr ''production''),
                                    (''platform'', JStr ''Chrome''),
                                    (''network'', JStr ''1''),
                                    (''environment_type'', JStr ''popup'')])]
   in SegmentTrack P \<in> set (fst (trackEvent sample_deps S C))
      \<and> nullish (js_get C ''excludeMetaMetricsId'')
      \<and> map_of (own_entries (js_get P ''properties'')) ''category'' = Some (JStr ''Navigation'')
      \<and> map_of (own_entries (js_get P ''properties'')) ''exclude_meta_metrics_id'' = Some (JBool False)
      \<and> ''anonymousId'' \<notin> set (js_keys P)"
  using trackEvent_category_and_exclude_flag
    [of "JObj [(''userId'', JStr ''abc''),
                 (''event'', JStr ''Unlocked MetaMask''),
                 (''properties'', JObj [(''exclude_meta_metrics_id'', JBool False),
                                       (''category'', JStr ''Navigation''), (''n'', JNum 1)]),
                 (''context'', JObj [(''version'', JStr ''8.0.0''),
                                    (''environment'', JStr ''production''),
                                    (''platform'', JStr ''Chrome''),
                                    (''network'', JStr ''1''),
                                    (''environment_type'', JStr ''popup'')])]"
        sample_deps "sample_state (JStr ''abc'') (JBool True) 0"
        "JObj [(''event'', JStr ''Unlocked MetaMask''), (''category'', JStr ''Navigation''),
                 (''properties'', JObj [(''exclude_meta_metrics_id'', JStr ''mine''),
                                       (''category'', JStr ''Other''), (''n'', JNum 1)])]"]
  by (simp add: sample_defs)

section \<open>Properties of the page effect\<close>

text \<open>
  C3. The \<^verbatim>\<open>params\<close> object of an emitted page event has neither an \<^verbatim>\<open>account\<close> nor an
  \<^verbatim>\<open>address\<close> key, and the calls made stay the same when the matcher's result has the
  values of its \<^verbatim>\<open>account\<close> and \<^verbatim>\<open>address\<close> parameters replaced by anything else.
\<close>

theorem page_params_without_account_address:
  "(\<forall>p. SegmentPage p \<in> set (page_useEffect d st loc) \<longrightarrow>
         ''account'' \<notin> set (js_keys (js_get (js_get p ''properties'') ''params''))
       \<and> ''address'' \<notin> set (js_keys (js_get (js_get p ''properties'') ''params'')))
   \<and> page_useEffect
        (d\<lparr>matchPath := \<lambda>pn ps. map_option
              (\<lambda>m. m\<lparr>params := map (\<lambda>(k, v). (k, if k \<in> set [''account'', ''address'']
                                                   then f k v else v)) (params m)\<rparr>)
              (matchPath d pn ps)\<rparr>) st loc
       = page_useEffect d st loc"
proof (intro conjI allI impI)
  fix p
  assume "SegmentPage p \<in> set (page_useEffect d st loc)"
  from page_useEffect_emitted [OF this] obtain m :: route_match where
    p: "p = JObj
          [(if truthy (metaMetricsId st) then ''userId'' else ''anonymousId'',
            nullish_coalesce (metaMetricsId st) (JStr (METAMETRICS_ANONYMOUS_ID d))),
           (''name'', case map_of (PATH_NAME_MAP d) (path m) of
                        Some n \<Rightarrow> JStr n | None \<Rightarrow> JUndefined),
           (''properties'', JObj
              [(''url'', JStr (path m)),
               (''hash'', JStr (hash loc)),
               (''params'', omit (JObj (params m)) [''account'', ''address''])])]"
    by blast
  have "js_get (js_get p ''properties'') ''params'' = omit (JObj (params m)) [''account'', ''address'']"
    unfolding p by simp
  then show "''account'' \<notin> set (js_keys (js_get (js_get p ''properties'') ''params''))"
    and "''address'' \<notin> set (js_keys (js_get (js_get p ''properties'') ''params''))"
    by (auto simp add: omit_def)
next
  show "page_useEffect
        (d\<lparr>matchPath := \<lambda>pn ps. map_option
              (\<lambda>m. m\<lparr>params := map (\<lambda>(k, v). (k, if k \<in> set [''account'', ''address'']
                                                   then f k v else v)) (params m)\<rparr>)
              (matchPath d pn ps)\<rparr>) st loc
       = page_useEffect d st loc"
    unfolding page_useEffect_def PATHS_TO_CHECK_def Let_def
    by (cases "matchPath d (pathname loc) (map fst (PATH_NAME_MAP d))")
       (simp_all add: omit_map_values del: set_simps)
qed

theorem page_params_without_account_address_witness:
  "let S = sample_state (JStr ''abc'') (JBool True) 0;
       L = \<lparr>pathname = ''/asset/0xdeadbeef'', hash = ''#top''\<rparr>;
       P = JObj [(''userId'', JStr ''abc''),
                 (''name'', JStr ''Asset Page''),
                 (''properties'', JObj [(''url'', JStr ''/asset/:address''),
                                       (''hash'', JStr ''#top''),
                                       (''params'', JObj [])])]
   in matchPath sample_deps (pathname L) (PATHS_TO_CHECK sample_deps) =
        Some \<lparr>path = ''/asset/:address'', url = ''/asset/0xdeadbeef'', isExact = True,
              params = [(''address'', JStr ''0xdeadbeef'')]\<rparr>
      \<and> SegmentPage P \<in> set (page_useEffect sample_deps S L)
      \<and> ''account'' \<notin> set (js_keys (js_get (js_get P ''properties'') ''params''))
      \<and> ''address'' \<notin> set (js_keys (js_get (js_get P ''properties'') ''params''))"
  using page_params_without_account_address
    [of sample_deps "sample_state (JStr ''abc'') (JBool True) 0"
        "\<lparr>pathname = ''/asset/0xdeadbeef'', hash = ''#top''\<rparr>"]
  by (simp add: page_defs)

text \<open>
  C6, as stated: every navigation to a path of the route table emits one page event.
  The effect first tests that the path starts with \<^verbatim>\<open>/initialize\<close> or that the user
  takes part in MetaMetrics; without either, a path of the table emits nothing.
\<close>

theorem page_event_needs_consent_or_initialize:
  "''/settings'' \<in> set (PATHS_TO_CHECK sample_deps)
   \<and> map_of (PATH_NAME_MAP sample_deps) ''/settings'' = Some ''Settings Page''
   \<and> page_useEffect sample_deps (sample_state (JStr ''abc'') (JBool False) 0)
        \<lparr>pathname = ''/settings'', hash = ''''\<rparr> = []"
  by (simp add: page_defs)

text \<open>
  C6, amended. When page tracking is active (the path starts with \<^verbatim>\<open>/initialize\<close> or the
  consent flag is truthy) and \<^verbatim>\<open>matchPath\<close> finds a pattern of the route table for the
  path, exactly one call is made, it is a page event, and its \<^verbatim>\<open>name\<close> is the page name
  the table gives for the matched pattern.
\<close>

theorem page_event_for_matched_route:
  assumes "startsWith (pathname loc) ''/initialize'' \<or> truthy (participateInMetaMetrics st)"
    and "matchPath d (pathname loc) (PATHS_TO_CHECK d) = Some m"
    and "path m \<in> set (PATHS_TO_CHECK d)"
  shows "\<exists>p n. page_useEffect d st loc = [SegmentPage p]
              \<and> map_of (PATH_NAME_MAP d) (path m) = Some n
              \<and> js_get p ''name'' = JStr n"
proof -
  obtain n where n: "map_of (PATH_NAME_MAP d) (path m) = Some n"
    using assms(3) by (cases "map_of (PATH_NAME_MAP d) (path m)")
      (auto simp add: PATHS_TO_CHECK_def map_of_eq_None_iff)
  show ?thesis
    using assms(1,2) n by (auto simp add: page_useEffect_def Let_def)
qed

theorem page_event_for_matched_route_witness:
  "let S = sample_state (JStr ''abc'') (JBool True) 0;
       L = \<lparr>pathname = ''/settings'', hash = ''''\<rparr>;
       M = \<lparr>path = ''/settings'', url = ''/settings'', isExact = True, params = []\<rparr>
   in (startsWith (pathname L) ''/initialize'' \<or> truthy (participateInMetaMetrics S))
      \<and> matchPath sample_deps (pathname L) (PATHS_TO_CHECK sample_deps) = Some M
      \<and> path M \<in> set (PATHS_TO_CHECK sample_deps)
      \<and> page_useEffect sample_deps S L =
          [SegmentPage (JObj [(''userId'', JStr ''abc''),
                              (''name'', JStr ''Settings Page''),
                              (''properties'', JObj [(''url'', JStr ''/settings''),
                                                    (''hash'', JStr ''''),
                                                    (''params'', JObj [])])])]"
  using page_event_for_matched_route
    [of "\<lparr>pathname = ''/settings'', hash = ''''\<rparr>"
        "sample_state (JStr ''abc'') (JBool True) 0" sample_deps
        "\<lparr>path = ''/settings'', url = ''/settings'', isExact = True, params = []\<rparr>"]
  by (simp add: page_defs)

text \<open>
  C7. The identity of a page event should be the user id under \<^verbatim>\<open>userId\<close> when it is
  known and the anonymous placeholder under \<^verbatim>\<open>anonymousId\<close> otherwise. The trait is
  chosen by truthiness (\<^verbatim>\<open>metaMetricsId ? ... : ...\<close>) and the value by nullishness
  (\<^verbatim>\<open>metaMetricsId ?? ...\<close>), and the two disagree on the empty string: the event then
  carries the empty string under \<^verbatim>\<open>anonymousId\<close>, not the placeholder.
\<close>

theorem page_identity_empty_user_id:
  "page_useEffect sample_deps (sample_state (JStr '''') (JBool True) 0)
     \<lparr>pathname = ''/settings'', hash = ''''\<rparr>
   = [SegmentPage (JObj [(''anonymousId'', JStr ''''),
                         (''name'', JStr ''Settings Page''),
                         (''properties'', JObj [(''url'', JStr ''/settings''),
                                               (''hash'', JStr ''''),
                                               (''params'', JObj [])])])]
   \<and> JStr '''' \<noteq> JStr (METAMETRICS_ANONYMOUS_ID sample_deps)"
  by (simp add: page_defs)

text \<open>
  On every other stored id the two tests agree: a truthy id goes out under \<^verbatim>\<open>userId\<close>,
  and \<^verbatim>\<open>null\<close> or \<^verbatim>\<open>undefined\<close> gives the placeholder under \<^verbatim>\<open>anonymousId\<close>.
\<close>

lemma page_identity_truthy_or_nullish:
  assumes "SegmentPage p \<in> set (page_useEffect d st loc)"
  shows "truthy (metaMetricsId st) \<Longrightarrow>
           (''userId'', metaMetricsId st) \<in> set (own_entries p) \<and> ''anonymousId'' \<notin> set (js_keys p)"
    and "nullish (metaMetricsId st) \<Longrightarrow>
           (''anonymousId'', JStr (METAMETRICS_ANONYMOUS_ID d)) \<in> set (own_entries p)
           \<and> ''userId'' \<notin> set (js_keys p)"
proof -
  from page_useEffect_emitted [OF assms] obtain m :: route_match where
    p: "p = JObj
          [(if truthy (metaMetricsId st) then ''userId'' else ''anonymousId'',
            nullish_coalesce (metaMetricsId st) (JStr (METAMETRICS_ANONYMOUS_ID d))),
           (''name'', case map_of (PATH_NAME_MAP d) (path m) of
                        Some n \<Rightarrow> JStr n | None \<Rightarrow> JUndefined),
           (''properties'', JObj
              [(''url'', JStr (path m)),
               (''hash'', JStr (hash loc)),
               (''params'', omit (JObj (params m)) [''account'', ''address''])])]"
    by blast
  show "truthy (metaMetricsId st) \<Longrightarrow>
           (''userId'', metaMetricsId st) \<in> set (own_entries p) \<and> ''anonymousId'' \<notin> set (js_keys p)"
    by (cases "metaMetricsId st") (simp_all add: p nullish_coalesce_def)
  show "nullish (metaMetricsId st) \<Longrightarrow>
           (''anonymousId'', JStr (METAMETRICS_ANONYMOUS_ID d)) \<in> set (own_entries p)
           \<and> ''userId'' \<notin> set (js_keys p)"
    by (cases "metaMetricsId st") (simp_all add: p nullish_coalesce_def)
qed

text \<open>
  C8. When page tracking is active and \<^verbatim>\<open>matchPath\<close> finds no pattern for the path, the
  only call made is \<^verbatim>\<open>captureMessage\<close> with the text naming the path, and for the path
  \<^verbatim>\<open>/confirm-transaction\<close> no call is made at all. The effect has no throw: its result
  is the list of calls and nothing else.
\<close>

theorem page_miss_reports_diagnostic:
  assumes "startsWith (pathname loc) ''/initialize'' \<or> truthy (participateInMetaMetrics st)"
    and "matchPath d (pathname loc) (PATHS_TO_CHECK d) = None"
  shows "page_useEffect d st loc =
           (if pathname loc \<noteq> ''/confirm-transaction'' then
              [CaptureMessage (pathname loc @
                 '' would have issued a page track event to segment, but no route match was found'')]
            else [])"
  using assms by (simp add: page_useEffect_def Let_def)

theorem page_miss_reports_diagnostic_witness:
  "let S = sample_state (JStr ''abc'') (JBool True) 0;
       L1 = \<lparr>pathname = ''/nowhere'', hash = ''''\<rparr>;
       L2 = \<lparr>pathname = ''/confirm-transaction'', hash = ''''\<rparr>
   in (startsWith (pathname L1) ''/initialize'' \<or> truthy (participateInMetaMetrics S))
      \<and> matchPath sample_deps (pathname L1) (PATHS_TO_CHECK sample_deps) = None
      \<and> matchPath sample_deps (pathname L2) (PATHS_TO_CHECK sample_deps) = None
      \<and> page_useEffect sample_deps S L1 =
          [CaptureMessage ''/nowhere would have issued a page track event to segment, but no route match was found'']
      \<and> page_useEffect sample_deps S L2 = []"
  using page_miss_reports_diagnostic
    [of "\<lparr>pathname = ''/nowhere'', hash = ''''\<rparr>"
        "sample_state (JStr ''abc'') (JBool True) 0" sample_deps]
    page_miss_reports_diagnostic
    [of "\<lparr>pathname = ''/confirm-transaction'', hash = ''''\<rparr>"
        "sample_state (JStr ''abc'') (JBool True) 0" sample_deps]
  by (simp add: page_defs)

end
